theory Spec2Isabelle
  imports Main "HOL-Library.Multiset" "HOL-Library.Sublist"
begin

section \<open>Parsed metadata documents\<close>

text \<open>
  \<^verbatim>\<open>md_to_orm.py\<close> reads a metadata file with \<^verbatim>\<open>json.loads\<close> and walks the
  resulting Python value. A value is \<open>None\<close>, a bool, a number, a string, a list or a
  dict with string keys. A \<open>JObject\<close> lists the items of the dict (looked up with
  \<open>map_of\<close>); numbers are integers (floats are outside this model); a string is the list
  of its characters.
\<close>

datatype json =
    JNull
  | JBool bool
  | JNum int
  | JString string
  | JArray "json list"
  | JObject "(string \<times> json) list"

text \<open>
  The exceptions the module can end with: Python's own, the module's
  \<^verbatim>\<open>MetadataError\<close> with its arguments, \<^verbatim>\<open>sa.exc.ProgrammingError\<close> with
  \<^verbatim>\<open>e.args[0]\<close>, and any other exception the database layer raises (by name).
\<close>

datatype exn =
    KeyError json
  | TypeError
  | IndexError
  | AttributeError
  | MetadataError "json list"
  | ProgrammingError string
  | OtherException string

subsection \<open>Python operations on parsed values\<close>

text \<open>\<^verbatim>\<open>v[k]\<close> for a string \<open>k\<close>.\<close>

fun py_getitem :: "json \<Rightarrow> string \<Rightarrow> exn + json" where
  "py_getitem (JObject kvs) k =
     (case map_of kvs k of None \<Rightarrow> Inl (KeyError (JString k)) | Some v \<Rightarrow> Inr v)"
| "py_getitem _ k = Inl TypeError"

text \<open>\<^verbatim>\<open>v[0]\<close>: the first element of a list, the first character of a string.\<close>

fun py_getitem0 :: "json \<Rightarrow> exn + json" where
  "py_getitem0 (JArray []) = Inl IndexError"
| "py_getitem0 (JArray (v # _)) = Inr v"
| "py_getitem0 (JString []) = Inl IndexError"
| "py_getitem0 (JString (c # _)) = Inr (JString [c])"
| "py_getitem0 (JObject _) = Inl (KeyError (JNum 0))"
| "py_getitem0 _ = Inl TypeError"

text \<open>\<^verbatim>\<open>for x in v\<close>: the elements of a list, the keys of a dict, the characters of a
  string; anything else is not iterable.\<close>

fun py_iter :: "json \<Rightarrow> exn + json list" where
  "py_iter (JArray xs) = Inr xs"
| "py_iter (JObject kvs) = Inr (map (\<lambda>kv. JString (fst kv)) kvs)"
| "py_iter (JString s) = Inr (map (\<lambda>c. JString [c]) s)"
| "py_iter _ = Inl TypeError"

text \<open>
  Hashing and equality of dict keys and list members: lists and dicts are unhashable;
  \<open>True\<close> and \<open>False\<close> are the integers 1 and 0.
\<close>

datatype pykey = KNone | KNum int | KStr string

fun key_of :: "json \<Rightarrow> pykey option" where
  "key_of JNull = Some KNone"
| "key_of (JBool b) = Some (KNum (if b then 1 else 0))"
| "key_of (JNum i) = Some (KNum i)"
| "key_of (JString s) = Some (KStr s)"
| "key_of (JArray _) = None"
| "key_of (JObject _) = None"

text \<open>\<^verbatim>\<open>x in xs\<close> for a hashable \<open>x\<close> with key \<open>k\<close>; \<open>xs\<close> is a list or \<open>None\<close>
  (what a list projection returns).\<close>

definition py_in :: "pykey \<Rightarrow> json list option \<Rightarrow> exn + bool" where
  "py_in k xs =
     (case xs of
        None \<Rightarrow> Inl TypeError
      | Some ys \<Rightarrow> Inr (list_ex (\<lambda>y. key_of y = Some k) ys))"

text \<open>\<^verbatim>\<open>s.split(".")\<close> on a string: one more segment than there are dots.\<close>

fun split_dot :: "string \<Rightarrow> string list" where
  "split_dot [] = [[]]"
| "split_dot (c # cs) =
     (if c = CHR ''.'' then [] # split_dot cs
      else (c # hd (split_dot cs)) # tl (split_dot cs))"

definition py_split_dot :: "json \<Rightarrow> exn + string list" where
  "py_split_dot v = (case v of JString s \<Rightarrow> Inr (split_dot s) | _ \<Rightarrow> Inl AttributeError)"

text \<open>
  A value inside an f-string: a string stands for itself; any other value goes through
  Python's \<^verbatim>\<open>str\<close>, which is taken as the parameter \<open>py_str\<close>.
\<close>

definition py_format :: "(json \<Rightarrow> string) \<Rightarrow> json \<Rightarrow> string" where
  "py_format py_str v = (case v of JString s \<Rightarrow> s | _ \<Rightarrow> py_str v)"

subsection \<open>The three jmespath expressions\<close>

text \<open>
  \<^verbatim>\<open>jmespath.search\<close> on a field name gives the dict's value, and \<open>None\<close> for a
  missing key or a value that is not a dict; a list projection \<^verbatim>\<open>[*]\<close> gives \<open>None\<close>
  for a value that is not a list, and drops the \<open>None\<close> elements of a list.
\<close>

definition jp_field :: "string \<Rightarrow> json \<Rightarrow> json" where
  "jp_field k v =
     (case v of
        JObject kvs \<Rightarrow> (case map_of kvs k of None \<Rightarrow> JNull | Some x \<Rightarrow> x)
      | _ \<Rightarrow> JNull)"

definition jp_project :: "json \<Rightarrow> json list option" where
  "jp_project v = (case v of JArray xs \<Rightarrow> Some (filter (\<lambda>x. x \<noteq> JNull) xs) | _ \<Rightarrow> None)"

text \<open>\<^verbatim>\<open>schema.primaryKey[*]\<close>, \<^verbatim>\<open>schema.foreignKeys\<close> and \<^verbatim>\<open>schema.fields[*]\<close>.\<close>

definition search_primaryKey :: "json \<Rightarrow> json list option" where
  "search_primaryKey table = jp_project (jp_field ''primaryKey'' (jp_field ''schema'' table))"

definition search_foreignKeys :: "json \<Rightarrow> json" where
  "search_foreignKeys table = jp_field ''foreignKeys'' (jp_field ''schema'' table)"

definition search_fields :: "json \<Rightarrow> json list option" where
  "search_fields table = jp_project (jp_field ''fields'' (jp_field ''schema'' table))"

section \<open>Table definitions\<close>

text \<open>
  \<^verbatim>\<open>sa.Column\<close>, \<^verbatim>\<open>sa.ForeignKey\<close> and \<^verbatim>\<open>sa.Table\<close> are taken as constructors
  that keep what they are given. A column type is a geoalchemy2 \<open>Geometry\<close> or any other
  SQLAlchemy type.
\<close>

datatype sa_type = Geometry | SAType string

record column =
  col_name :: json
  col_type :: sa_type
  col_foreign_key :: "string option"
  col_primary_key :: bool
  col_comment :: json

record table =
  tbl_name :: string
  tbl_schema :: string
  tbl_columns :: "column list"

section \<open>The table compiler\<close>

text \<open>
  \<^verbatim>\<open>TYPES[k]\<close>. The table \<^verbatim>\<open>postgresql_types.TYPES\<close> is a parameter; its keys are type
  names (strings), so another hashable key is missing from it.
\<close>

definition types_getitem :: "(string \<rightharpoonup> sa_type) \<Rightarrow> json \<Rightarrow> exn + sa_type" where
  "types_getitem TYPES k =
     (case key_of k of
        None \<Rightarrow> Inl TypeError
      | Some (KStr s) \<Rightarrow> (case TYPES s of None \<Rightarrow> Inl (KeyError k) | Some t \<Rightarrow> Inr t)
      | Some _ \<Rightarrow> Inl (KeyError k))"

text \<open>
  Lines 131-136: the \<^verbatim>\<open>try\<close> looks the field's type up; its \<^verbatim>\<open>except KeyError\<close>
  evaluates \<^verbatim>\<open>field["type"]\<close> again for the arguments of the \<^verbatim>\<open>MetadataError\<close>.
\<close>

definition unknown_column_type :: "string \<Rightarrow> json \<Rightarrow> exn + sa_type" where
  "unknown_column_type metadata_file field =
     (case py_getitem field ''type'' of
        Inl e \<Rightarrow> Inl e
      | Inr ty \<Rightarrow>
          Inl (MetadataError [JString ''Unknown column type'', field, ty, JString metadata_file]))"

definition get_column_type :: "(string \<rightharpoonup> sa_type) \<Rightarrow> string \<Rightarrow> json \<Rightarrow> exn + sa_type" where
  "get_column_type TYPES metadata_file field =
     (case py_getitem field ''type'' of
        Inl (KeyError _) \<Rightarrow> unknown_column_type metadata_file field
      | Inl e \<Rightarrow> Inl e
      | Inr ty \<Rightarrow>
          (case types_getitem TYPES ty of
             Inl (KeyError _) \<Rightarrow> unknown_column_type metadata_file field
           | Inl e \<Rightarrow> Inl e
           | Inr column_type \<Rightarrow> Inr column_type))"

text \<open>Line 144: the target of the \<^verbatim>\<open>sa.ForeignKey\<close>.\<close>

definition foreign_key_target :: "(json \<Rightarrow> string) \<Rightarrow> json \<Rightarrow> exn + string" where
  "foreign_key_target py_str foreign_key =
     (case py_getitem foreign_key ''resource'' of
        Inl e \<Rightarrow> Inl e
      | Inr resource \<Rightarrow>
          (case py_getitem foreign_key ''fields'' of
             Inl e \<Rightarrow> Inl e
           | Inr flds \<Rightarrow>
               (case py_getitem0 flds of
                  Inl e \<Rightarrow> Inl e
                | Inr f0 \<Rightarrow> Inr (py_format py_str resource @ ''.'' @ py_format py_str f0))))"

text \<open>
  Lines 129-156, the body of the loop over the fields. Arguments are evaluated left to
  right: the foreign key, then \<^verbatim>\<open>primary_key=\<close>, then \<^verbatim>\<open>comment=\<close>.
\<close>

definition create_column ::
  "(string \<rightharpoonup> sa_type) \<Rightarrow> (json \<Rightarrow> string) \<Rightarrow> string \<Rightarrow> json list option \<Rightarrow>
   (pykey \<rightharpoonup> json) \<Rightarrow> json \<Rightarrow> exn + column" where
  "create_column TYPES py_str metadata_file primary_keys foreign_keys field =
     (case get_column_type TYPES metadata_file field of
        Inl e \<Rightarrow> Inl e
      | Inr column_type \<Rightarrow>
     (case py_getitem field ''name'' of
        Inl e \<Rightarrow> Inl e
      | Inr name \<Rightarrow>
     (case key_of name of
        None \<Rightarrow> Inl TypeError
      | Some k \<Rightarrow>
     (case (case foreign_keys k of
              Some foreign_key \<Rightarrow>
                (case foreign_key_target py_str foreign_key of
                   Inl e \<Rightarrow> Inl e
                 | Inr target \<Rightarrow> Inr (Some target))
            | None \<Rightarrow> Inr None) of
        Inl e \<Rightarrow> Inl e
      | Inr target \<Rightarrow>
     (case py_in k primary_keys of
        Inl e \<Rightarrow> Inl e
      | Inr is_pk \<Rightarrow>
     (case py_getitem field ''description'' of
        Inl e \<Rightarrow> Inl e
      | Inr description \<Rightarrow>
          Inr \<lparr>col_name = name, col_type = column_type, col_foreign_key = target,
               col_primary_key = is_pk, col_comment = description\<rparr>))))))"

fun create_columns ::
  "(string \<rightharpoonup> sa_type) \<Rightarrow> (json \<Rightarrow> string) \<Rightarrow> string \<Rightarrow> json list option \<Rightarrow>
   (pykey \<rightharpoonup> json) \<Rightarrow> json list \<Rightarrow> exn + column list" where
  "create_columns TYPES py_str metadata_file primary_keys foreign_keys [] = Inr []"
| "create_columns TYPES py_str metadata_file primary_keys foreign_keys (field # flds) =
     (case create_column TYPES py_str metadata_file primary_keys foreign_keys field of
        Inl e \<Rightarrow> Inl e
      | Inr c \<Rightarrow>
          (case create_columns TYPES py_str metadata_file primary_keys foreign_keys flds of
             Inl e \<Rightarrow> Inl e
           | Inr cs \<Rightarrow> Inr (c # cs)))"

text \<open>
  Lines 122-125, the dict comprehension: the key \<^verbatim>\<open>fk["fields"][0]\<close> is evaluated
  before the value \<^verbatim>\<open>fk["reference"]\<close>, the key is hashed when the item is stored, and
  a later item replaces an earlier one with the same key.
\<close>

definition foreign_key_item :: "json \<Rightarrow> exn + pykey \<times> json" where
  "foreign_key_item fk =
     (case py_getitem fk ''fields'' of
        Inl e \<Rightarrow> Inl e
      | Inr flds \<Rightarrow>
          (case py_getitem0 flds of
             Inl e \<Rightarrow> Inl e
           | Inr f0 \<Rightarrow>
               (case py_getitem fk ''reference'' of
                  Inl e \<Rightarrow> Inl e
                | Inr reference \<Rightarrow>
                    (case key_of f0 of
                       None \<Rightarrow> Inl TypeError
                     | Some k \<Rightarrow> Inr (k, reference)))))"

fun foreign_keys_dict :: "json list \<Rightarrow> (pykey \<rightharpoonup> json) \<Rightarrow> exn + (pykey \<rightharpoonup> json)" where
  "foreign_keys_dict [] d = Inr d"
| "foreign_keys_dict (fk # fks) d =
     (case foreign_key_item fk of
        Inl e \<Rightarrow> Inl e
      | Inr (k, reference) \<Rightarrow> foreign_keys_dict fks (d(k \<mapsto> reference)))"

text \<open>Lines 109-116: schema and table name from the resource's name.\<close>

definition schema_and_table_name :: "json \<Rightarrow> exn + string \<times> string" where
  "schema_and_table_name table =
     (case py_getitem table ''name'' of
        Inl e \<Rightarrow> Inl e
      | Inr name \<Rightarrow>
          (case py_split_dot name of
             Inl e \<Rightarrow> Inl e
           | Inr schema_table_str \<Rightarrow>
               if length schema_table_str = 1 then Inr (''public'', schema_table_str ! 0)
               else if length schema_table_str = 2
                 then Inr (schema_table_str ! 0, schema_table_str ! 1)
               else Inl (MetadataError [JString ''Cannot read table name (and schema)'', name])))"

text \<open>Lines 108-158, the body of the loop over the resources.\<close>

definition create_table_from_resource ::
  "(string \<rightharpoonup> sa_type) \<Rightarrow> (json \<Rightarrow> string) \<Rightarrow> string \<Rightarrow> json \<Rightarrow> exn + table" where
  "create_table_from_resource TYPES py_str metadata_file table =
     (case schema_and_table_name table of
        Inl e \<Rightarrow> Inl e
      | Inr (schema, table_name) \<Rightarrow>
     (case py_iter (search_foreignKeys table) of
        Inl e \<Rightarrow> Inl e
      | Inr fks \<Rightarrow>
     (case foreign_keys_dict fks Map.empty of
        Inl e \<Rightarrow> Inl e
      | Inr foreign_keys \<Rightarrow>
     (case search_fields table of
        None \<Rightarrow> Inl TypeError
      | Some flds \<Rightarrow>
     (case create_columns TYPES py_str metadata_file (search_primaryKey table)
             foreign_keys flds of
        Inl e \<Rightarrow> Inl e
      | Inr cols \<Rightarrow>
          Inr \<lparr>tbl_name = table_name, tbl_schema = schema, tbl_columns = cols\<rparr>)))))"

fun create_tables_from_resources ::
  "(string \<rightharpoonup> sa_type) \<Rightarrow> (json \<Rightarrow> string) \<Rightarrow> string \<Rightarrow> json list \<Rightarrow> exn + table list" where
  "create_tables_from_resources TYPES py_str metadata_file [] = Inr []"
| "create_tables_from_resources TYPES py_str metadata_file (table # tables_raw) =
     (case create_table_from_resource TYPES py_str metadata_file table of
        Inl e \<Rightarrow> Inl e
      | Inr t \<Rightarrow>
          (case create_tables_from_resources TYPES py_str metadata_file tables_raw of
             Inl e \<Rightarrow> Inl e
           | Inr ts \<Rightarrow> Inr (t # ts)))"

text \<open>
  \<^verbatim>\<open>create_tables_from_metadata_file\<close>, from the parsed document on: \<open>metadata\<close> is what
  \<^verbatim>\<open>json.loads\<close> returned for the file \<open>metadata_file\<close>.
\<close>

definition create_tables_from_metadata_file ::
  "(string \<rightharpoonup> sa_type) \<Rightarrow> (json \<Rightarrow> string) \<Rightarrow> string \<Rightarrow> json \<Rightarrow> exn + table list" where
  "create_tables_from_metadata_file TYPES py_str metadata_file metadata =
     (case py_iter (jp_field ''resources'' metadata) of
        Inl e \<Rightarrow> Inl e
      | Inr tables_raw \<Rightarrow> create_tables_from_resources TYPES py_str metadata_file tables_raw)"

section \<open>The dependency orderer\<close>

text \<open>\<^verbatim>\<open>len(x.foreign_keys)\<close>: the columns of the table that carry a foreign key.\<close>

definition foreign_key_count :: "table \<Rightarrow> nat" where
  "foreign_key_count x = length (filter (\<lambda>c. col_foreign_key c \<noteq> None) (tbl_columns x))"

text \<open>Python's \<^verbatim>\<open>sorted\<close> with a key is a stable sort, as \<open>sort_key\<close> is.\<close>

definition order_tables_by_foreign_keys :: "table list \<Rightarrow> table list" where
  "order_tables_by_foreign_keys tables = sort_key foreign_key_count tables"

section \<open>The database\<close>

text \<open>
  The database is reached through four calls: \<^verbatim>\<open>db.engine.execute\<close> (of
  \<^verbatim>\<open>CREATE EXTENSION POSTGIS;\<close> and of \<^verbatim>\<open>sa.schema.CreateSchema(schema)\<close>),
  \<^verbatim>\<open>dialect.has_schema\<close>, \<^verbatim>\<open>dialect.has_table\<close> and \<^verbatim>\<open>table.create\<close>. The
  program's state is the list of the calls it has issued so far; the database is any
  function that answers a call given the calls that came before it, by returning or by
  raising.
\<close>

datatype stmt = CreateExtensionPostgis | CreateSchema string

datatype call =
    Execute stmt
  | HasSchema string
  | HasTable string string
  | TableCreate table

record database =
  db_execute :: "call list \<Rightarrow> stmt \<Rightarrow> exn option"
  db_has_schema :: "call list \<Rightarrow> string \<Rightarrow> exn + bool"
  db_has_table :: "call list \<Rightarrow> string \<Rightarrow> string \<Rightarrow> exn + bool"
  db_table_create :: "call list \<Rightarrow> table \<Rightarrow> exn option"

text \<open>\<^verbatim>\<open>sub in s\<close> on strings.\<close>

fun py_contains :: "string \<Rightarrow> string \<Rightarrow> bool" where
  "py_contains sub [] = (sub = [])"
| "py_contains sub (c # cs) = (prefix sub (c # cs) \<or> py_contains sub cs)"

section \<open>The schema provisioner\<close>

text \<open>Lines 61-65: \<^verbatim>\<open>except sa.exc.ProgrammingError: pass\<close>.\<close>

definition create_schema :: "database \<Rightarrow> call list \<Rightarrow> string \<Rightarrow> (exn + unit) \<times> call list" where
  "create_schema db tr schema =
     (case db_execute db tr (CreateSchema schema) of
        None \<Rightarrow> (Inr (), tr @ [Execute (CreateSchema schema)])
      | Some (ProgrammingError _) \<Rightarrow> (Inr (), tr @ [Execute (CreateSchema schema)])
      | Some e \<Rightarrow> (Inl e, tr @ [Execute (CreateSchema schema)]))"

text \<open>Lines 70-80: the extension, asked for whenever a column of the table is a geometry.\<close>

definition create_extension :: "database \<Rightarrow> call list \<Rightarrow> table \<Rightarrow> (exn + unit) \<times> call list" where
  "create_extension db tr table =
     (if list_ex (\<lambda>column. col_type column = Geometry) (tbl_columns table) then
        (case db_execute db tr CreateExtensionPostgis of
           None \<Rightarrow> (Inr (), tr @ [Execute CreateExtensionPostgis])
         | Some (ProgrammingError args0) \<Rightarrow>
             if py_contains ''psycopg2.errors.DuplicateObject'' args0
             then (Inr (), tr @ [Execute CreateExtensionPostgis])
             else (Inl (ProgrammingError args0), tr @ [Execute CreateExtensionPostgis])
         | Some e \<Rightarrow> (Inl e, tr @ [Execute CreateExtensionPostgis]))
      else (Inr (), tr))"

text \<open>Lines 81-82.\<close>

definition create_missing_schema ::
  "database \<Rightarrow> call list \<Rightarrow> table \<Rightarrow> (exn + unit) \<times> call list" where
  "create_missing_schema db tr table =
     (case db_has_schema db tr (tbl_schema table) of
        Inl e \<Rightarrow> (Inl e, tr @ [HasSchema (tbl_schema table)])
      | Inr exists \<Rightarrow>
          if \<not> exists then create_schema db (tr @ [HasSchema (tbl_schema table)]) (tbl_schema table)
          else (Inr (), tr @ [HasSchema (tbl_schema table)]))"

text \<open>Lines 83-89: the \<^verbatim>\<open>except\<close> logs and raises again.\<close>

definition create_missing_table ::
  "database \<Rightarrow> call list \<Rightarrow> table \<Rightarrow> (exn + unit) \<times> call list" where
  "create_missing_table db tr table =
     (case db_has_table db tr (tbl_name table) (tbl_schema table) of
        Inl e \<Rightarrow> (Inl e, tr @ [HasTable (tbl_name table) (tbl_schema table)])
      | Inr exists \<Rightarrow>
          if \<not> exists then
            (case db_table_create db (tr @ [HasTable (tbl_name table) (tbl_schema table)]) table of
               None \<Rightarrow>
                 (Inr (), tr @ [HasTable (tbl_name table) (tbl_schema table), TableCreate table])
             | Some e \<Rightarrow>
                 (Inl e, tr @ [HasTable (tbl_name table) (tbl_schema table), TableCreate table]))
          else (Inr (), tr @ [HasTable (tbl_name table) (tbl_schema table)]))"

text \<open>Lines 69-89, the body of the loop over the tables, and the loop.\<close>

definition create_table :: "database \<Rightarrow> call list \<Rightarrow> table \<Rightarrow> (exn + unit) \<times> call list" where
  "create_table db tr table =
     (case create_extension db tr table of
        (Inl e, tr1) \<Rightarrow> (Inl e, tr1)
      | (Inr _, tr1) \<Rightarrow>
          (case create_missing_schema db tr1 table of
             (Inl e, tr2) \<Rightarrow> (Inl e, tr2)
           | (Inr _, tr2) \<Rightarrow> create_missing_table db tr2 table))"

fun create_tables :: "database \<Rightarrow> call list \<Rightarrow> table list \<Rightarrow> (exn + unit) \<times> call list" where
  "create_tables db tr [] = (Inr (), tr)"
| "create_tables db tr (table # tables) =
     (case create_table db tr table of
        (Inl e, tr') \<Rightarrow> (Inl e, tr')
      | (Inr _, tr') \<Rightarrow> create_tables db tr' tables)"

section \<open>The run\<close>

text \<open>
  Lines 191-202 of \<^verbatim>\<open>main\<close>: every file is compiled, an exception of the compiler
  is raised again, and only then are the tables ordered and created. A metadata file is
  given with its parsed content; no call has been issued when the run starts.
\<close>

fun create_tables_from_metadata_files ::
  "(string \<rightharpoonup> sa_type) \<Rightarrow> (json \<Rightarrow> string) \<Rightarrow> (string \<times> json) list \<Rightarrow> exn + table list" where
  "create_tables_from_metadata_files TYPES py_str [] = Inr []"
| "create_tables_from_metadata_files TYPES py_str ((metadata_file, metadata) # metadata_files) =
     (case create_tables_from_metadata_file TYPES py_str metadata_file metadata of
        Inl e \<Rightarrow> Inl e
      | Inr md_tables \<Rightarrow>
          (case create_tables_from_metadata_files TYPES py_str metadata_files of
             Inl e \<Rightarrow> Inl e
           | Inr tables \<Rightarrow> Inr (md_tables @ tables)))"

definition main ::
  "(string \<rightharpoonup> sa_type) \<Rightarrow> (json \<Rightarrow> string) \<Rightarrow> database \<Rightarrow> (string \<times> json) list \<Rightarrow>
   (exn + unit) \<times> call list" where
  "main TYPES py_str db metadata_files =
     (case create_tables_from_metadata_files TYPES py_str metadata_files of
        Inl e \<Rightarrow> (Inl e, [])
      | Inr tables \<Rightarrow> create_tables db [] (order_tables_by_foreign_keys tables))"

section \<open>Example inputs\<close>

text \<open>A database whose user may not create schemas; it holds no schema and no table.\<close>

definition database_without_privilege :: database where
  "database_without_privilege =
     \<lparr>db_execute = (\<lambda>tr s. Some (ProgrammingError
        ''(psycopg2.errors.InsufficientPrivilege) permission denied for database'')),
      db_has_schema = (\<lambda>tr s. Inr False),
      db_has_table = (\<lambda>tr n s. Inr False),
      db_table_create = (\<lambda>tr t. None)\<rparr>"

text \<open>Columns and tables with zero, two and one foreign keys.\<close>

definition plain_column :: "string \<Rightarrow> column" where
  "plain_column n =
     \<lparr>col_name = JString n, col_type = SAType ''Integer'', col_foreign_key = None,
      col_primary_key = False, col_comment = JNull\<rparr>"

definition referencing_column :: "string \<Rightarrow> string \<Rightarrow> column" where
  "referencing_column n target =
     \<lparr>col_name = JString n, col_type = SAType ''Integer'', col_foreign_key = Some target,
      col_primary_key = False, col_comment = JNull\<rparr>"

definition table_T1 :: table where
  "table_T1 = \<lparr>tbl_name = ''T1'', tbl_schema = ''public'', tbl_columns = [plain_column ''id'']\<rparr>"

definition table_T2 :: table where
  "table_T2 =
     \<lparr>tbl_name = ''T2'', tbl_schema = ''public'',
      tbl_columns = [plain_column ''id'', referencing_column ''a'' ''T1.id'',
                     referencing_column ''b'' ''T3.id'']\<rparr>"

definition table_T3 :: table where
  "table_T3 =
     \<lparr>tbl_name = ''T3'', tbl_schema = ''public'',
      tbl_columns = [plain_column ''id'', referencing_column ''a'' ''T1.id'']\<rparr>"

text \<open>
  Builders of metadata documents, a type lookup table and a stand-in for Python's
  \<^verbatim>\<open>str\<close> (the examples format strings only).
\<close>

definition field_json :: "string \<Rightarrow> string \<Rightarrow> json \<Rightarrow> json" where
  "field_json n ty d = JObject [(''name'', JString n), (''type'', JString ty), (''description'', d)]"

definition foreign_key_json :: "string \<Rightarrow> string \<Rightarrow> string \<Rightarrow> json" where
  "foreign_key_json n resource f =
     JObject [(''fields'', JArray [JString n]),
              (''reference'', JObject [(''resource'', JString resource), (''fields'', JArray [JString f])])]"

definition resource_json :: "string \<Rightarrow> (string \<times> json) list \<Rightarrow> json" where
  "resource_json n schema = JObject [(''name'', JString n), (''schema'', JObject schema)]"

definition document_json :: "json list \<Rightarrow> json" where
  "document_json resources = JObject [(''resources'', JArray resources)]"

definition example_TYPES :: "string \<rightharpoonup> sa_type" where
  "example_TYPES = [''integer'' \<mapsto> SAType ''Integer'', ''text'' \<mapsto> SAType ''Text'', ''geometry'' \<mapsto> Geometry]"

definition example_py_str :: "json \<Rightarrow> string" where
  "example_py_str v = (case v of JBool b \<Rightarrow> (if b then ''True'' else ''False'') | _ \<Rightarrow> ''None'')"

text \<open>A field whose type is not in the lookup table, in a resource with and without
  \<^verbatim>\<open>foreignKeys\<close>.\<close>

definition unknown_type_field :: json where
  "unknown_type_field = field_json ''id'' ''serial'' (JString ''Identifier'')"

definition unknown_type_resource :: json where
  "unknown_type_resource =
     resource_json ''plant''
       [(''fields'', JArray [unknown_type_field]),
        (''primaryKey'', JArray [JString ''id'']),
        (''foreignKeys'', JArray [])]"

definition resource_without_foreignKeys :: json where
  "resource_without_foreignKeys =
     resource_json ''plant''
       [(''fields'', JArray [unknown_type_field]),
        (''primaryKey'', JArray [JString ''id''])]"

text \<open>A resource with a primary key, a foreign key and a geometry, and the table it compiles to.\<close>

definition plant_resource :: json where
  "plant_resource =
     resource_json ''model.plant''
       [(''fields'', JArray [field_json ''id'' ''integer'' (JString ''Identifier''),
                             field_json ''region_id'' ''integer'' JNull,
                             field_json ''geom'' ''geometry'' (JString ''Location'')]),
        (''primaryKey'', JArray [JString ''id'']),
        (''foreignKeys'', JArray [foreign_key_json ''region_id'' ''model.region'' ''id''])]"

definition plant_table :: table where
  "plant_table =
     \<lparr>tbl_name = ''plant'', tbl_schema = ''model'',
      tbl_columns =
        [\<lparr>col_name = JString ''id'', col_type = SAType ''Integer'', col_foreign_key = None,
          col_primary_key = True, col_comment = JString ''Identifier''\<rparr>,
         \<lparr>col_name = JString ''region_id'', col_type = SAType ''Integer'',
          col_foreign_key = Some ''model.region.id'', col_primary_key = False,
          col_comment = JNull\<rparr>,
         \<lparr>col_name = JString ''geom'', col_type = Geometry, col_foreign_key = None,
          col_primary_key = False, col_comment = JString ''Location''\<rparr>]\<rparr>"



definition resource_without_primaryKey :: json where
  "resource_without_primaryKey =
     resource_json ''plant''
       [(''fields'', JArray [field_json ''id'' ''integer'' (JString ''Identifier'')]),
        (''foreignKeys'', JArray [])]"

definition unknown_type_resource_without_primaryKey :: json where
  "unknown_type_resource_without_primaryKey =
     resource_json ''plant''
       [(''fields'', JArray [unknown_type_field]),
        (''foreignKeys'', JArray [])]"

text \<open>A database that holds every schema, every table and the extension already, and one
  in which a table appears between the existence check and its creation.\<close>

definition database_complete :: database where
  "database_complete =
     \<lparr>db_execute = (\<lambda>tr s. Some (ProgrammingError
        ''(psycopg2.errors.DuplicateObject) extension postgis already exists'')),
      db_has_schema = (\<lambda>tr s. Inr True),
      db_has_table = (\<lambda>tr n s. Inr True),
      db_table_create = (\<lambda>tr t. Some (ProgrammingError
        ''(psycopg2.errors.DuplicateTable) relation already exists''))\<rparr>"

definition database_with_race :: database where
  "database_with_race =
     \<lparr>db_execute = (\<lambda>tr s. None),
      db_has_schema = (\<lambda>tr s. Inr True),
      db_has_table = (\<lambda>tr n s. Inr (n = ''T1'')),
      db_table_create = (\<lambda>tr t. Some (ProgrammingError
        ''(psycopg2.errors.DuplicateTable) relation already exists''))\<rparr>"

section \<open>Auxiliary facts\<close>

lemmas builder_defs =
  field_json_def foreign_key_json_def resource_json_def document_json_def example_TYPES_def
  example_py_str_def

lemmas compiler_defs =
  create_tables_from_metadata_file_def create_table_from_resource_def
  schema_and_table_name_def py_split_dot_def search_fields_def search_foreignKeys_def
  search_primaryKey_def jp_field_def jp_project_def foreign_key_item_def create_column_def
  get_column_type_def unknown_column_type_def types_getitem_def py_in_def
  foreign_key_target_def py_format_def


lemma create_columns_append_Inl:
  "create_columns TYPES py_str file pks fks pre = Inr cs \<Longrightarrow>
   create_column TYPES py_str file pks fks f = Inl e \<Longrightarrow>
   create_columns TYPES py_str file pks fks (pre @ f # post) = Inl e"
  by (induction pre arbitrary: cs) (auto split: sum.splits)

lemma create_columns_member_Inl:
  "f \<in> set flds \<Longrightarrow> create_column TYPES py_str file pks fks f = Inl e \<Longrightarrow>
   \<exists>e'. create_columns TYPES py_str file pks fks flds = Inl e'"
  by (induction flds) (auto split: sum.splits)

lemma create_tables_from_resources_append_Inl:
  "create_tables_from_resources TYPES py_str file pre = Inr ts \<Longrightarrow>
   create_table_from_resource TYPES py_str file r = Inl e \<Longrightarrow>
   create_tables_from_resources TYPES py_str file (pre @ r # post) = Inl e"
  by (induction pre arbitrary: ts) (auto split: sum.splits)

lemma create_tables_from_resources_member_Inl:
  "r \<in> set rs \<Longrightarrow> create_table_from_resource TYPES py_str file r = Inl e \<Longrightarrow>
   \<exists>e'. create_tables_from_resources TYPES py_str file rs = Inl e'"
  by (induction rs) (auto split: sum.splits)

lemma create_tables_from_metadata_files_member_Inl:
  "(file, metadata) \<in> set files \<Longrightarrow>
   create_tables_from_metadata_file TYPES py_str file metadata = Inl e \<Longrightarrow>
   \<exists>e'. create_tables_from_metadata_files TYPES py_str files = Inl e'"
  by (induction files) (auto split: sum.splits)

lemma create_table_from_resource_Inr:
  "create_table_from_resource TYPES py_str file table = Inr t \<Longrightarrow>
   \<exists>fks d flds.
     schema_and_table_name table = Inr (tbl_schema t, tbl_name t)
     \<and> py_iter (search_foreignKeys table) = Inr fks
     \<and> foreign_keys_dict fks Map.empty = Inr d
     \<and> search_fields table = Some flds
     \<and> create_columns TYPES py_str file (search_primaryKey table) d flds = Inr (tbl_columns t)"
  by (auto simp: create_table_from_resource_def split: sum.splits option.splits prod.splits)

lemma create_column_Inr:
  "create_column TYPES py_str file pks d field = Inr c \<Longrightarrow>
   \<exists>k. get_column_type TYPES file field = Inr (col_type c)
     \<and> py_getitem field ''name'' = Inr (col_name c)
     \<and> key_of (col_name c) = Some k
     \<and> (case d k of
           None \<Rightarrow> col_foreign_key c = None
         | Some reference \<Rightarrow>
             \<exists>target. foreign_key_target py_str reference = Inr target
                      \<and> col_foreign_key c = Some target)
     \<and> py_in k pks = Inr (col_primary_key c)
     \<and> py_getitem field ''description'' = Inr (col_comment c)"
  by (auto simp: create_column_def split: sum.splits option.splits)





lemma split_dot_not_Nil: "split_dot s \<noteq> []"
  by (induction s) auto

lemma length_split_dot: "length (split_dot s) = Suc (count_list s (CHR ''.''))"
  by (induction s) (auto simp: split_dot_not_Nil)

lemma split_dot_Cons:
  "split_dot cs = seg # segs \<Longrightarrow>
   split_dot (c # cs) = (if c = CHR ''.'' then [] # seg # segs else (c # seg) # segs)"
  by simp

lemma split_dot_no_dot: "seg \<in> set (split_dot s) \<Longrightarrow> CHR ''.'' \<notin> set seg"
proof (induction s arbitrary: seg)
  case Nil
  then show ?case by simp
next
  case (Cons c cs)
  obtain a list where eq: "split_dot cs = a # list"
    by (cases "split_dot cs") (simp_all add: split_dot_not_Nil)
  from Cons.prems Cons.IH show ?case
    unfolding split_dot_Cons [OF eq] eq
    by (auto split: if_splits)
qed

lemma split_dot_join:
  "concat (map (\<lambda>seg. seg @ ''.'') (butlast (split_dot s))) @ last (split_dot s) = s"
proof (induction s)
  case Nil
  then show ?case by simp
next
  case (Cons c cs)
  obtain a list where eq: "split_dot cs = a # list"
    by (cases "split_dot cs") (simp_all add: split_dot_not_Nil)
  from Cons.IH show ?case
    unfolding split_dot_Cons [OF eq] eq
    by (simp split: if_splits)
qed

lemma get_column_type_unknown:
  "py_getitem field ''type'' = Inr (JString type_name) \<Longrightarrow> TYPES type_name = None \<Longrightarrow>
   get_column_type TYPES file field =
     Inl (MetadataError [JString ''Unknown column type'', field, JString type_name, JString file])"
  by (simp add: get_column_type_def types_getitem_def unknown_column_type_def)

lemma create_column_type_Inl:
  "get_column_type TYPES file field = Inl e \<Longrightarrow>
   create_column TYPES py_str file pks d field = Inl e"
  by (simp add: create_column_def)

lemma create_table_from_resource_columns_Inl:
  assumes "search_fields table = Some flds"
    and "\<And>d. \<exists>e. create_columns TYPES py_str file (search_primaryKey table) d flds = Inl e"
  shows "\<exists>e. create_table_from_resource TYPES py_str file table = Inl e"
proof (cases "create_table_from_resource TYPES py_str file table")
  case (Inl e)
  then show ?thesis by blast
next
  case (Inr t)
  from create_table_from_resource_Inr [OF Inr] assms(1) obtain d where
    "create_columns TYPES py_str file (search_primaryKey table) d flds = Inr (tbl_columns t)"
    by auto
  with assms(2) [of d] show ?thesis by simp
qed

lemma create_tables_from_metadata_file_member_Inl:
  assumes "py_iter (jp_field ''resources'' metadata) = Inr tables_raw"
    and "table \<in> set tables_raw"
    and "create_table_from_resource TYPES py_str file table = Inl e"
  shows "\<exists>e'. create_tables_from_metadata_file TYPES py_str file metadata = Inl e'"
  using assms(1) create_tables_from_resources_member_Inl [OF assms(2,3)]
  by (simp add: create_tables_from_metadata_file_def)

lemma main_compile_Inl:
  "create_tables_from_metadata_files TYPES py_str files = Inl e \<Longrightarrow>
   main TYPES py_str db files = (Inl e, [])"
  by (simp add: main_def)






lemma create_column_primary_keys_None:
  "\<exists>e. create_column TYPES py_str file None d field = Inl e"
proof (cases "create_column TYPES py_str file None d field")
  case (Inl e)
  then show ?thesis by blast
next
  case (Inr c)
  from create_column_Inr [OF Inr] show ?thesis by (simp add: py_in_def)
qed

lemmas provisioner_defs =
  create_table_def create_extension_def create_missing_schema_def create_missing_table_def
  create_schema_def

lemma create_table_existing:
  assumes "db_has_schema db tr' (tbl_schema t) = Inr True"
    and "db_has_table db (tr' @ [HasSchema (tbl_schema t)]) (tbl_name t) (tbl_schema t) = Inr True"
    and "create_extension db tr t = (Inr (), tr')"
  shows "create_table db tr t
    = (Inr (), tr' @ [HasSchema (tbl_schema t), HasTable (tbl_name t) (tbl_schema t)])"
  using assms by (simp add: create_table_def create_missing_schema_def create_missing_table_def)

lemma create_extension_cases:
  obtains (none) "\<not> list_ex (\<lambda>column. col_type column = Geometry) (tbl_columns t)"
      "create_extension db tr t = (Inr (), tr)"
  | (created) "list_ex (\<lambda>column. col_type column = Geometry) (tbl_columns t)"
      "create_extension db tr t = (Inr (), tr @ [Execute CreateExtensionPostgis])"
      "db_execute db tr CreateExtensionPostgis = None
       \<or> (\<exists>m. db_execute db tr CreateExtensionPostgis = Some (ProgrammingError m)
              \<and> py_contains ''psycopg2.errors.DuplicateObject'' m)"
  | (raised) e where "list_ex (\<lambda>column. col_type column = Geometry) (tbl_columns t)"
      "create_extension db tr t = (Inl e, tr @ [Execute CreateExtensionPostgis])"
      "db_execute db tr CreateExtensionPostgis = Some e"
      "\<forall>m. e = ProgrammingError m \<longrightarrow> \<not> py_contains ''psycopg2.errors.DuplicateObject'' m"
proof (cases "list_ex (\<lambda>column. col_type column = Geometry) (tbl_columns t)")
  case False
  then show ?thesis by (intro none) (simp_all add: create_extension_def)
next
  case True
  show ?thesis
  proof (cases "db_execute db tr CreateExtensionPostgis")
    case None
    with True show ?thesis by (intro created) (simp_all add: create_extension_def)
  next
    case (Some e)
    show ?thesis
    proof (cases "\<exists>m. e = ProgrammingError m
        \<and> py_contains ''psycopg2.errors.DuplicateObject'' m")
      case True
      with \<open>list_ex _ _\<close> Some show ?thesis
        by (intro created) (auto simp: create_extension_def)
    next
      case False
      with \<open>list_ex _ _\<close> Some show ?thesis
        by (intro raised [of e]) (auto simp: create_extension_def split: exn.splits)
    qed
  qed
qed

section \<open>Properties of the schema provisioner\<close>

text \<open>
  C1. A schema creation that fails with a \<open>ProgrammingError\<close> is swallowed whatever its
  cause. Here the database refuses every statement for want of privilege, not because
  something exists already: \<open>create_schema\<close> returns normally, while the creation of the
  extension, which looks at the cause, raises the same error.
\<close>

theorem create_schema_swallows_permission_denied:
  "create_schema database_without_privilege [] ''data''
     = (Inr (), [Execute (CreateSchema ''data'')])
   \<and> create_extension database_without_privilege [] plant_table
     = (Inl (ProgrammingError
               ''(psycopg2.errors.InsufficientPrivilege) permission denied for database''),
        [Execute CreateExtensionPostgis])"
  by (simp add: create_schema_def create_extension_def database_without_privilege_def
      plant_table_def)

text \<open>
  C6. A table that exists is skipped: the existence check is the only call, and nothing is
  raised. A creation that fails raises its exception, whatever it is (the error of a
  table that exists included), and so ends the run. Both are stated for the step alone
  and for the run that has reached the step.
\<close>

theorem existing_table_skipped_failed_creation_raised:
  "(db_has_table db tr (tbl_name table) (tbl_schema table) = Inr True \<longrightarrow>
      create_missing_table db tr table
        = (Inr (), tr @ [HasTable (tbl_name table) (tbl_schema table)]))
   \<and> (db_has_table db tr (tbl_name table) (tbl_schema table) = Inr False
        \<and> db_table_create db (tr @ [HasTable (tbl_name table) (tbl_schema table)]) table
            = Some e \<longrightarrow>
      create_missing_table db tr table
        = (Inl e, tr @ [HasTable (tbl_name table) (tbl_schema table), TableCreate table]))
   \<and> (create_extension db tr0 table = (Inr (), tr1)
        \<and> create_missing_schema db tr1 table = (Inr (), tr) \<longrightarrow>
        (db_has_table db tr (tbl_name table) (tbl_schema table) = Inr True \<longrightarrow>
           create_tables db tr0 (table # tables)
             = create_tables db (tr @ [HasTable (tbl_name table) (tbl_schema table)]) tables)
        \<and> (db_has_table db tr (tbl_name table) (tbl_schema table) = Inr False
            \<and> db_table_create db (tr @ [HasTable (tbl_name table) (tbl_schema table)]) table
                = Some e \<longrightarrow>
           create_tables db tr0 (table # tables)
             = (Inl e, tr @ [HasTable (tbl_name table) (tbl_schema table), TableCreate table])))"
  by (simp add: create_missing_table_def create_table_def)

theorem existing_table_skipped_failed_creation_raised_example:
  "create_tables database_with_race [] [table_T1, table_T3]
     = (Inl (ProgrammingError ''(psycopg2.errors.DuplicateTable) relation already exists''),
        [HasSchema ''public'', HasTable ''T1'' ''public'',
         HasSchema ''public'', HasTable ''T3'' ''public'', TableCreate table_T3])"
proof -
  let ?e = "ProgrammingError ''(psycopg2.errors.DuplicateTable) relation already exists''"
  have names: "tbl_name table_T1 = ''T1''" "tbl_schema table_T1 = ''public''"
    "tbl_name table_T3 = ''T3''" "tbl_schema table_T3 = ''public''"
    by (simp_all add: table_T1_def table_T3_def)
  have before1: "create_extension database_with_race [] table_T1 = (Inr (), [])
      \<and> create_missing_schema database_with_race [] table_T1 = (Inr (), [HasSchema ''public''])"
    by (simp add: provisioner_defs database_with_race_def table_T1_def plain_column_def)
  have exists1: "db_has_table database_with_race [HasSchema ''public''] (tbl_name table_T1)
      (tbl_schema table_T1) = Inr True"
    by (simp add: database_with_race_def names)
  have before3: "create_extension database_with_race
        [HasSchema ''public'', HasTable ''T1'' ''public''] table_T3
        = (Inr (), [HasSchema ''public'', HasTable ''T1'' ''public''])
      \<and> create_missing_schema database_with_race
        [HasSchema ''public'', HasTable ''T1'' ''public''] table_T3
        = (Inr (), [HasSchema ''public'', HasTable ''T1'' ''public'', HasSchema ''public''])"
    by (simp add: provisioner_defs database_with_race_def table_T3_def plain_column_def
        referencing_column_def)
  have race3: "db_has_table database_with_race
        [HasSchema ''public'', HasTable ''T1'' ''public'', HasSchema ''public'']
        (tbl_name table_T3) (tbl_schema table_T3) = Inr False
      \<and> db_table_create database_with_race
        ([HasSchema ''public'', HasTable ''T1'' ''public'', HasSchema ''public'']
         @ [HasTable (tbl_name table_T3) (tbl_schema table_T3)]) table_T3 = Some ?e"
    by (simp add: database_with_race_def names)
  note skip = existing_table_skipped_failed_creation_raised
    [where db = database_with_race and table = table_T1 and ?tr0.0 = "[]"
       and tr = "[HasSchema ''public'']" and tables = "[table_T3]",
     THEN conjunct2, THEN conjunct2, rule_format, OF before1, THEN conjunct1, rule_format,
     OF exists1]
  note raised = existing_table_skipped_failed_creation_raised
    [where db = database_with_race and table = table_T3
       and ?tr0.0 = "[HasSchema ''public'', HasTable ''T1'' ''public'']"
       and tr = "[HasSchema ''public'', HasTable ''T1'' ''public'', HasSchema ''public'']"
       and tables = "[]" and e = ?e,
     THEN conjunct2, THEN conjunct2, rule_format, OF before3, THEN conjunct2, rule_format,
     OF race3]
  from skip raised show ?thesis by (simp add: names)
qed

text \<open>
  C7, as amended. When every table of the list and its schema exist, the run issues no
  schema creation and no table creation. It issues \<^verbatim>\<open>CREATE EXTENSION POSTGIS\<close> once
  for every table with a geometry column, before the checks; when each of these succeeds
  or fails because the extension exists, or no table has a geometry column, the run ends
  without an exception after exactly these calls and the two existence checks per table.
\<close>

theorem provisioning_existing_tables:
  assumes "\<forall>tr. \<forall>t\<in>set tables.
      db_has_schema db tr (tbl_schema t) = Inr True
      \<and> db_has_table db tr (tbl_name t) (tbl_schema t) = Inr True"
  shows "((\<forall>tr'. db_execute db tr' CreateExtensionPostgis = None
            \<or> (\<exists>m. db_execute db tr' CreateExtensionPostgis = Some (ProgrammingError m)
                   \<and> py_contains ''psycopg2.errors.DuplicateObject'' m))
          \<or> (\<forall>t\<in>set tables. \<not> list_ex (\<lambda>column. col_type column = Geometry) (tbl_columns t))
        \<longrightarrow> create_tables db tr tables
            = (Inr (),
               tr @ concat (map (\<lambda>t.
                 (if list_ex (\<lambda>column. col_type column = Geometry) (tbl_columns t)
                  then [Execute CreateExtensionPostgis] else [])
                 @ [HasSchema (tbl_schema t), HasTable (tbl_name t) (tbl_schema t)]) tables)))
    \<and> (\<exists>calls. snd (create_tables db tr tables) = tr @ calls
          \<and> (\<forall>c\<in>set calls. (\<forall>s. c \<noteq> Execute (CreateSchema s)) \<and> (\<forall>t. c \<noteq> TableCreate t)))"
  using assms
proof (induction tables arbitrary: tr)
  case Nil
  then show ?case by simp
next
  case (Cons t ts)
  let ?geo = "\<lambda>t. list_ex (\<lambda>column. col_type column = Geometry) (tbl_columns t)"
  let ?calls = "\<lambda>t. (if ?geo t then [Execute CreateExtensionPostgis] else [])
      @ [HasSchema (tbl_schema t), HasTable (tbl_name t) (tbl_schema t)]"
  from Cons.prems have here: "db_has_schema db tr' (tbl_schema t) = Inr True"
      "db_has_table db tr' (tbl_name t) (tbl_schema t) = Inr True" for tr'
    by simp_all
  from Cons.prems have rest: "\<forall>tr. \<forall>t\<in>set ts.
      db_has_schema db tr (tbl_schema t) = Inr True
      \<and> db_has_table db tr (tbl_name t) (tbl_schema t) = Inr True"
    by simp
  note IH = Cons.IH [OF rest]
  show ?case
  proof (cases rule: create_extension_cases [of t db tr])
    case none
    from create_table_existing [OF here none(2)]
    have step: "create_table db tr t = (Inr (), tr @ ?calls t)"
      using none(1) by simp
    show ?thesis
    proof (intro conjI impI)
      assume a: "(\<forall>tr'. db_execute db tr' CreateExtensionPostgis = None
            \<or> (\<exists>m. db_execute db tr' CreateExtensionPostgis = Some (ProgrammingError m)
                   \<and> py_contains ''psycopg2.errors.DuplicateObject'' m))
          \<or> (\<forall>t\<in>set (t # ts). \<not> ?geo t)"
      then have "(\<forall>tr'. db_execute db tr' CreateExtensionPostgis = None
            \<or> (\<exists>m. db_execute db tr' CreateExtensionPostgis = Some (ProgrammingError m)
                   \<and> py_contains ''psycopg2.errors.DuplicateObject'' m))
          \<or> (\<forall>t\<in>set ts. \<not> ?geo t)"
        by (rule disj_forward) simp_all
      with IH [of "tr @ ?calls t"] step
      show "create_tables db tr (t # ts) = (Inr (), tr @ concat (map ?calls (t # ts)))"
        by simp
    next
      from IH [of "tr @ ?calls t"] obtain calls where
        "snd (create_tables db (tr @ ?calls t) ts) = (tr @ ?calls t) @ calls"
        "\<forall>c\<in>set calls. (\<forall>s. c \<noteq> Execute (CreateSchema s)) \<and> (\<forall>t. c \<noteq> TableCreate t)"
        by blast
      with step show "\<exists>calls. snd (create_tables db tr (t # ts)) = tr @ calls
          \<and> (\<forall>c\<in>set calls. (\<forall>s. c \<noteq> Execute (CreateSchema s)) \<and> (\<forall>t. c \<noteq> TableCreate t))"
        by (intro exI [of _ "?calls t @ calls"]) auto
    qed
  next
    case created
    from create_table_existing [OF here created(2)]
    have step: "create_table db tr t = (Inr (), tr @ ?calls t)"
      using created(1) by simp
    show ?thesis
    proof (intro conjI impI)
      assume a: "(\<forall>tr'. db_execute db tr' CreateExtensionPostgis = None
            \<or> (\<exists>m. db_execute db tr' CreateExtensionPostgis = Some (ProgrammingError m)
                   \<and> py_contains ''psycopg2.errors.DuplicateObject'' m))
          \<or> (\<forall>t\<in>set (t # ts). \<not> ?geo t)"
      then have "(\<forall>tr'. db_execute db tr' CreateExtensionPostgis = None
            \<or> (\<exists>m. db_execute db tr' CreateExtensionPostgis = Some (ProgrammingError m)
                   \<and> py_contains ''psycopg2.errors.DuplicateObject'' m))
          \<or> (\<forall>t\<in>set ts. \<not> ?geo t)"
        by (rule disj_forward) simp_all
      with IH [of "tr @ ?calls t"] step
      show "create_tables db tr (t # ts) = (Inr (), tr @ concat (map ?calls (t # ts)))"
        by simp
    next
      from IH [of "tr @ ?calls t"] obtain calls where
        "snd (create_tables db (tr @ ?calls t) ts) = (tr @ ?calls t) @ calls"
        "\<forall>c\<in>set calls. (\<forall>s. c \<noteq> Execute (CreateSchema s)) \<and> (\<forall>t. c \<noteq> TableCreate t)"
        by blast
      with step show "\<exists>calls. snd (create_tables db tr (t # ts)) = tr @ calls
          \<and> (\<forall>c\<in>set calls. (\<forall>s. c \<noteq> Execute (CreateSchema s)) \<and> (\<forall>t. c \<noteq> TableCreate t))"
        by (intro exI [of _ "?calls t @ calls"]) auto
    qed
  next
    case (raised e)
    then have step: "create_table db tr t = (Inl e, tr @ [Execute CreateExtensionPostgis])"
      by (simp add: create_table_def)
    show ?thesis
    proof (intro conjI impI)
      assume a: "(\<forall>tr'. db_execute db tr' CreateExtensionPostgis = None
            \<or> (\<exists>m. db_execute db tr' CreateExtensionPostgis = Some (ProgrammingError m)
                   \<and> py_contains ''psycopg2.errors.DuplicateObject'' m))
          \<or> (\<forall>t\<in>set (t # ts). \<not> ?geo t)"
      then have False
      proof
        assume "\<forall>tr'. db_execute db tr' CreateExtensionPostgis = None
            \<or> (\<exists>m. db_execute db tr' CreateExtensionPostgis = Some (ProgrammingError m)
                   \<and> py_contains ''psycopg2.errors.DuplicateObject'' m)"
        then have "db_execute db tr CreateExtensionPostgis = None
            \<or> (\<exists>m. db_execute db tr CreateExtensionPostgis = Some (ProgrammingError m)
                   \<and> py_contains ''psycopg2.errors.DuplicateObject'' m)" ..
        with raised(3,4) show False by auto
      next
        assume "\<forall>t\<in>set (t # ts). \<not> ?geo t"
        with raised(1) show False by simp
      qed
      then show "create_tables db tr (t # ts) = (Inr (), tr @ concat (map ?calls (t # ts)))" ..
    next
      from step show "\<exists>calls. snd (create_tables db tr (t # ts)) = tr @ calls
          \<and> (\<forall>c\<in>set calls. (\<forall>s. c \<noteq> Execute (CreateSchema s)) \<and> (\<forall>t. c \<noteq> TableCreate t))"
        by (intro exI [of _ "[Execute CreateExtensionPostgis]"]) simp
    qed
  qed
qed

theorem provisioning_existing_tables_example:
  "create_tables database_complete [] [table_T1, plant_table]
     = (Inr (),
        [HasSchema ''public'', HasTable ''T1'' ''public'',
         Execute CreateExtensionPostgis, HasSchema ''model'', HasTable ''plant'' ''model''])"
proof -
  have existing: "\<forall>tr. \<forall>t\<in>set [table_T1, plant_table].
      db_has_schema database_complete tr (tbl_schema t) = Inr True
      \<and> db_has_table database_complete tr (tbl_name t) (tbl_schema t) = Inr True"
    by (simp add: database_complete_def)
  have duplicate: "(\<forall>tr'. db_execute database_complete tr' CreateExtensionPostgis = None
        \<or> (\<exists>m. db_execute database_complete tr' CreateExtensionPostgis
                 = Some (ProgrammingError m)
               \<and> py_contains ''psycopg2.errors.DuplicateObject'' m))
      \<or> (\<forall>t\<in>set [table_T1, plant_table].
            \<not> list_ex (\<lambda>column. col_type column = Geometry) (tbl_columns t))"
    by (simp add: database_complete_def)
  from provisioning_existing_tables [OF existing, of "[]", THEN conjunct1, rule_format,
      OF duplicate]
  show ?thesis
    by (simp add: table_T1_def plant_table_def plain_column_def)
qed

text \<open>
  C7 as stated fails: the table exists, it has a geometry column, and the run issues the
  creation of the extension.
\<close>

theorem existing_geometry_table_creates_extension:
  "db_has_schema database_complete [Execute CreateExtensionPostgis] ''model'' = Inr True
   \<and> db_has_table database_complete [Execute CreateExtensionPostgis, HasSchema ''model'']
        ''plant'' ''model'' = Inr True
   \<and> create_tables database_complete [] [plant_table]
      = (Inr (), [Execute CreateExtensionPostgis, HasSchema ''model'', HasTable ''plant'' ''model''])"
  by (simp add: provisioner_defs database_complete_def plant_table_def)

section \<open>Properties of the dependency orderer\<close>

text \<open>
  C2. The orderer returns a permutation of its input, sorted by ascending number of
  foreign keys; it is stable (the tables with any one count stand in their input order);
  tables with 0, 2 and 1 foreign keys given in this order come out as first, third,
  second.
\<close>

theorem order_tables_by_foreign_keys_stable_sort:
  "mset (order_tables_by_foreign_keys tables) = mset tables
   \<and> sorted (map foreign_key_count (order_tables_by_foreign_keys tables))
   \<and> (\<forall>k. filter (\<lambda>t. foreign_key_count t = k) (order_tables_by_foreign_keys tables)
          = filter (\<lambda>t. foreign_key_count t = k) tables)
   \<and> (foreign_key_count T1 = 0 \<and> foreign_key_count T2 = 2 \<and> foreign_key_count T3 = 1
        \<longrightarrow> order_tables_by_foreign_keys [T1, T2, T3] = [T1, T3, T2])"
  by (simp add: order_tables_by_foreign_keys_def sort_key_stable)

theorem order_tables_by_foreign_keys_example:
  "foreign_key_count table_T1 = 0 \<and> foreign_key_count table_T2 = 2
   \<and> foreign_key_count table_T3 = 1
   \<and> order_tables_by_foreign_keys [table_T1, table_T2, table_T3]
       = [table_T1, table_T3, table_T2]"
proof -
  have counts: "foreign_key_count table_T1 = 0" "foreign_key_count table_T2 = 2"
    "foreign_key_count table_T3 = 1"
    by (simp_all add: foreign_key_count_def table_T1_def table_T2_def table_T3_def
        plain_column_def referencing_column_def)
  from order_tables_by_foreign_keys_stable_sort [of "[]" table_T1 table_T2 table_T3] counts
  show ?thesis by simp
qed

section \<open>Properties of the table compiler\<close>

text \<open>
  C3, as amended. A document with a field whose type name is not in the lookup table never
  compiles, and the run ends with the compiler's exception before any call to the
  database. The exception is the \<open>MetadataError\<close> with the message
  \<^verbatim>\<open>Unknown column type\<close>, the field, the type name and the file (the module has no
  exception class of its own for it) when nothing fails before the field is reached: the
  resources before it compile, its resource has a name of one or two segments and
  well-formed foreign keys, and the fields before it compile.
\<close>

theorem unknown_column_type_fails_before_database:
  assumes "py_getitem field ''type'' = Inr (JString type_name)"
    and "TYPES type_name = None"
    and "search_fields table = Some flds" and "field \<in> set flds"
    and "py_iter (jp_field ''resources'' metadata) = Inr tables_raw"
    and "table \<in> set tables_raw"
    and "(metadata_file, metadata) \<in> set metadata_files"
  shows
    "get_column_type TYPES metadata_file field =
       Inl (MetadataError [JString ''Unknown column type'', field, JString type_name,
                           JString metadata_file])
     \<and> (\<exists>e. create_tables_from_metadata_file TYPES py_str metadata_file metadata = Inl e)
     \<and> (\<exists>e. main TYPES py_str db metadata_files = (Inl e, []))
     \<and> (\<forall>pre post ts st fks d fpre fpost cs.
          tables_raw = pre @ table # post
          \<and> create_tables_from_resources TYPES py_str metadata_file pre = Inr ts
          \<and> schema_and_table_name table = Inr st
          \<and> py_iter (search_foreignKeys table) = Inr fks
          \<and> foreign_keys_dict fks Map.empty = Inr d
          \<and> flds = fpre @ field # fpost
          \<and> create_columns TYPES py_str metadata_file (search_primaryKey table) d fpre = Inr cs
          \<longrightarrow> create_tables_from_metadata_file TYPES py_str metadata_file metadata =
                Inl (MetadataError [JString ''Unknown column type'', field, JString type_name,
                                    JString metadata_file]))"
proof -
  let ?err = "MetadataError [JString ''Unknown column type'', field, JString type_name,
                             JString metadata_file]"
  have ty: "get_column_type TYPES metadata_file field = Inl ?err"
    using assms(1,2) by (rule get_column_type_unknown)
  have col: "create_column TYPES py_str metadata_file pks d field = Inl ?err" for pks d
    using ty by (rule create_column_type_Inl)
  have "\<exists>e. create_columns TYPES py_str metadata_file (search_primaryKey table) d flds = Inl e"
    for d
    using create_columns_member_Inl [OF assms(4) col] .
  with assms(3) have "\<exists>e. create_table_from_resource TYPES py_str metadata_file table = Inl e"
    by (rule create_table_from_resource_columns_Inl)
  then obtain e where "create_table_from_resource TYPES py_str metadata_file table = Inl e" ..
  from create_tables_from_metadata_file_member_Inl [OF assms(5,6) this]
  obtain e' where doc: "create_tables_from_metadata_file TYPES py_str metadata_file metadata = Inl e'"
    ..
  from create_tables_from_metadata_files_member_Inl [OF assms(7) doc]
  obtain e'' where "create_tables_from_metadata_files TYPES py_str metadata_files = Inl e''" ..
  then have run: "main TYPES py_str db metadata_files = (Inl e'', [])"
    by (rule main_compile_Inl)
  have first: "create_tables_from_metadata_file TYPES py_str metadata_file metadata = Inl ?err"
    if raw: "tables_raw = pre @ table # post"
      and pre: "create_tables_from_resources TYPES py_str metadata_file pre = Inr ts"
      and st: "schema_and_table_name table = Inr st"
      and fks: "py_iter (search_foreignKeys table) = Inr fks"
      and d: "foreign_keys_dict fks Map.empty = Inr d"
      and fl: "flds = fpre @ field # fpost"
      and cs: "create_columns TYPES py_str metadata_file (search_primaryKey table) d fpre = Inr cs"
    for pre post ts st fks d fpre fpost cs
  proof -
    have "create_columns TYPES py_str metadata_file (search_primaryKey table) d flds = Inl ?err"
      unfolding fl using cs col by (rule create_columns_append_Inl)
    with st fks d assms(3)
    have "create_table_from_resource TYPES py_str metadata_file table = Inl ?err"
      by (simp add: create_table_from_resource_def split: prod.splits)
    with pre have "create_tables_from_resources TYPES py_str metadata_file tables_raw = Inl ?err"
      unfolding raw by (rule create_tables_from_resources_append_Inl)
    with assms(5) show ?thesis
      by (simp add: create_tables_from_metadata_file_def)
  qed
  from ty doc run first show ?thesis by blast
qed

theorem unknown_column_type_example:
  "create_tables_from_metadata_file example_TYPES example_py_str ''plant.json''
     (document_json [unknown_type_resource]) =
     Inl (MetadataError [JString ''Unknown column type'', unknown_type_field, JString ''serial'',
                         JString ''plant.json''])
   \<and> (\<exists>e. main example_TYPES example_py_str database_without_privilege
              [(''plant.json'', document_json [unknown_type_resource])] = (Inl e, []))"
proof -
  have h1: "py_getitem unknown_type_field ''type'' = Inr (JString ''serial'')"
    by (simp add: unknown_type_field_def field_json_def)
  have h2: "example_TYPES ''serial'' = None"
    by (simp add: example_TYPES_def)
  have h3: "search_fields unknown_type_resource = Some [unknown_type_field]"
    by (simp add: search_fields_def jp_field_def jp_project_def unknown_type_resource_def
        resource_json_def unknown_type_field_def field_json_def)
  have h4: "unknown_type_field \<in> set [unknown_type_field]"
    by simp
  have h5: "py_iter (jp_field ''resources'' (document_json [unknown_type_resource])) =
      Inr [unknown_type_resource]"
    by (simp add: jp_field_def document_json_def)
  have h6: "unknown_type_resource \<in> set [unknown_type_resource]"
    by simp
  have h7: "(''plant.json'', document_json [unknown_type_resource])
      \<in> set [(''plant.json'', document_json [unknown_type_resource])]"
    by simp
  note all = unknown_column_type_fails_before_database
    [where TYPES = example_TYPES and py_str = example_py_str
       and db = database_without_privilege, OF h1 h2 h3 h4 h5 h6 h7]
  have first: "[unknown_type_resource] = [] @ unknown_type_resource # []
     \<and> create_tables_from_resources example_TYPES example_py_str ''plant.json'' [] = Inr []
     \<and> schema_and_table_name unknown_type_resource = Inr (''public'', ''plant'')
     \<and> py_iter (search_foreignKeys unknown_type_resource) = Inr []
     \<and> foreign_keys_dict [] Map.empty = Inr Map.empty
     \<and> [unknown_type_field] = [] @ unknown_type_field # []
     \<and> create_columns example_TYPES example_py_str ''plant.json''
          (search_primaryKey unknown_type_resource) Map.empty [] = Inr []"
    by (simp add: schema_and_table_name_def py_split_dot_def search_foreignKeys_def jp_field_def
        unknown_type_resource_def resource_json_def)
  from all [THEN conjunct2, THEN conjunct2, THEN conjunct2, rule_format, OF first]
    all [THEN conjunct2, THEN conjunct2, THEN conjunct1]
  show ?thesis by (rule conjI)
qed

text \<open>
  C3 as stated fails: this document has a field of unknown type, and compiling it ends
  with the \<open>TypeError\<close> of iterating the missing \<^verbatim>\<open>foreignKeys\<close>, which comes first.
\<close>

theorem unknown_column_type_behind_missing_foreignKeys:
  "py_getitem unknown_type_field ''type'' = Inr (JString ''serial'')
   \<and> example_TYPES ''serial'' = None
   \<and> search_fields resource_without_foreignKeys = Some [unknown_type_field]
   \<and> create_tables_from_metadata_file example_TYPES example_py_str ''plant.json''
        (document_json [resource_without_foreignKeys]) = Inl TypeError"
  by (simp add: builder_defs unknown_type_field_def resource_without_foreignKeys_def
      compiler_defs)

text \<open>
  C5. The name of a resource splits at its dots into one more segment than it has dots
  (the segments hold no dot and give the name back when joined by dots). One segment is the
  table name in the schema \<^verbatim>\<open>public\<close>; two segments are schema and table name; with
  any other number of segments the resource fails with the \<open>MetadataError\<close> that carries
  the name, and so does the document once the resources before it have compiled. The
  table of a compiled resource has the schema and name so found.
\<close>

theorem resource_name_parsing:
  assumes "py_getitem table ''name'' = Inr (JString n)"
  shows "length (split_dot n) = Suc (count_list n (CHR ''.''))
    \<and> concat (map (\<lambda>seg. seg @ ''.'') (butlast (split_dot n))) @ last (split_dot n) = n
    \<and> (\<forall>seg\<in>set (split_dot n). CHR ''.'' \<notin> set seg)
    \<and> (\<forall>t. split_dot n = [t] \<longrightarrow> schema_and_table_name table = Inr (''public'', t))
    \<and> (\<forall>s t. split_dot n = [s, t] \<longrightarrow> schema_and_table_name table = Inr (s, t))
    \<and> (length (split_dot n) \<noteq> 1 \<and> length (split_dot n) \<noteq> 2 \<longrightarrow>
          schema_and_table_name table
            = Inl (MetadataError [JString ''Cannot read table name (and schema)'', JString n])
          \<and> create_table_from_resource TYPES py_str metadata_file table
            = Inl (MetadataError [JString ''Cannot read table name (and schema)'', JString n])
          \<and> (\<forall>pre post ts.
                create_tables_from_resources TYPES py_str metadata_file pre = Inr ts \<longrightarrow>
                create_tables_from_resources TYPES py_str metadata_file (pre @ table # post)
                  = Inl (MetadataError [JString ''Cannot read table name (and schema)'',
                                        JString n])))
    \<and> (\<forall>t. create_table_from_resource TYPES py_str metadata_file table = Inr t \<longrightarrow>
          schema_and_table_name table = Inr (tbl_schema t, tbl_name t))"
proof -
  let ?err = "MetadataError [JString ''Cannot read table name (and schema)'', JString n]"
  have one: "schema_and_table_name table = Inr (''public'', t)" if "split_dot n = [t]" for t
    using assms that by (simp add: schema_and_table_name_def py_split_dot_def)
  have two: "schema_and_table_name table = Inr (s, t)" if "split_dot n = [s, t]" for s t
    using assms that by (simp add: schema_and_table_name_def py_split_dot_def)
  have other: "schema_and_table_name table = Inl ?err
      \<and> create_table_from_resource TYPES py_str metadata_file table = Inl ?err
      \<and> (\<forall>pre post ts.
            create_tables_from_resources TYPES py_str metadata_file pre = Inr ts \<longrightarrow>
            create_tables_from_resources TYPES py_str metadata_file (pre @ table # post)
              = Inl ?err)"
    if "length (split_dot n) \<noteq> 1 \<and> length (split_dot n) \<noteq> 2"
  proof -
    from assms that have name: "schema_and_table_name table = Inl ?err"
      by (simp add: schema_and_table_name_def py_split_dot_def)
    then have res: "create_table_from_resource TYPES py_str metadata_file table = Inl ?err"
      by (simp add: create_table_from_resource_def)
    from name res show ?thesis
      using create_tables_from_resources_append_Inl by blast
  qed
  have ok: "schema_and_table_name table = Inr (tbl_schema t, tbl_name t)"
    if "create_table_from_resource TYPES py_str metadata_file table = Inr t" for t
    using create_table_from_resource_Inr [OF that] by blast
  from one two other ok show ?thesis
    using length_split_dot [of n] split_dot_join [of n] split_dot_no_dot [of _ n]
    by blast
qed

theorem resource_name_parsing_example:
  "schema_and_table_name (resource_json ''plant'' []) = Inr (''public'', ''plant'')
   \<and> schema_and_table_name (resource_json ''model.plant'' []) = Inr (''model'', ''plant'')
   \<and> create_table_from_resource example_TYPES example_py_str ''plant.json''
        (resource_json ''model.plant.v1'' [])
      = Inl (MetadataError [JString ''Cannot read table name (and schema)'',
                            JString ''model.plant.v1''])"
proof -
  have n1: "py_getitem (resource_json ''plant'' []) ''name'' = Inr (JString ''plant'')"
    and n2: "py_getitem (resource_json ''model.plant'' []) ''name''
      = Inr (JString ''model.plant'')"
    and n3: "py_getitem (resource_json ''model.plant.v1'' []) ''name''
      = Inr (JString ''model.plant.v1'')"
    by (simp_all add: resource_json_def)
  have s1: "split_dot ''plant'' = [''plant'']"
    and s2: "split_dot ''model.plant'' = [''model'', ''plant'']"
    and s3: "length (split_dot ''model.plant.v1'') \<noteq> 1
      \<and> length (split_dot ''model.plant.v1'') \<noteq> 2"
    by simp_all
  note p1 = resource_name_parsing [OF n1, of example_TYPES example_py_str "''plant.json''"]
  note p2 = resource_name_parsing [OF n2, of example_TYPES example_py_str "''plant.json''"]
  note p3 = resource_name_parsing [OF n3, of example_TYPES example_py_str "''plant.json''"]
  from p1 s1 have "schema_and_table_name (resource_json ''plant'' []) = Inr (''public'', ''plant'')"
    by blast
  moreover from p2 s2
  have "schema_and_table_name (resource_json ''model.plant'' []) = Inr (''model'', ''plant'')"
    by blast
  moreover from p3 s3
  have "create_table_from_resource example_TYPES example_py_str ''plant.json''
        (resource_json ''model.plant.v1'' [])
      = Inl (MetadataError [JString ''Cannot read table name (and schema)'',
                            JString ''model.plant.v1''])"
    by blast
  ultimately show ?thesis by (intro conjI)
qed








text \<open>
  C10, as amended. A resource without \<^verbatim>\<open>schema.foreignKeys\<close>, and a resource with
  fields and without a \<^verbatim>\<open>schema.primaryKey\<close> list, never compile, and neither does a
  document that holds one. The failure is a \<open>TypeError\<close> when nothing fails before the
  missing value is used: with the name of one or two segments for \<^verbatim>\<open>foreignKeys\<close>,
  and for \<^verbatim>\<open>primaryKey\<close> also with well-formed foreign keys and a first field of known
  type, hashable name and well-formed reference.
\<close>

theorem missing_keys_raise:
  "(search_foreignKeys table = JNull \<longrightarrow>
      (\<exists>e. create_table_from_resource TYPES py_str metadata_file table = Inl e)
      \<and> (\<forall>st. schema_and_table_name table = Inr st \<longrightarrow>
            create_table_from_resource TYPES py_str metadata_file table = Inl TypeError))
   \<and> (search_primaryKey table = None \<and> search_fields table = Some (field # flds) \<longrightarrow>
      (\<exists>e. create_table_from_resource TYPES py_str metadata_file table = Inl e)
      \<and> (\<forall>st fks d ty name k.
            schema_and_table_name table = Inr st
            \<and> py_iter (search_foreignKeys table) = Inr fks
            \<and> foreign_keys_dict fks Map.empty = Inr d
            \<and> get_column_type TYPES metadata_file field = Inr ty
            \<and> py_getitem field ''name'' = Inr name \<and> key_of name = Some k
            \<and> (\<forall>reference. d k = Some reference \<longrightarrow>
                  (\<exists>target. foreign_key_target py_str reference = Inr target))
            \<longrightarrow> create_table_from_resource TYPES py_str metadata_file table = Inl TypeError))
   \<and> (py_iter (jp_field ''resources'' metadata) = Inr tables_raw \<and> table \<in> set tables_raw
        \<and> (search_foreignKeys table = JNull
           \<or> search_primaryKey table = None \<and> search_fields table = Some (field # flds))
      \<longrightarrow> (\<exists>e. create_tables_from_metadata_file TYPES py_str metadata_file metadata = Inl e))"
proof -
  have fk_fail: "\<exists>e. create_table_from_resource TYPES py_str metadata_file table = Inl e"
    if "search_foreignKeys table = JNull"
    using that by (auto simp: create_table_from_resource_def split: sum.splits prod.splits)
  have fk_type: "create_table_from_resource TYPES py_str metadata_file table = Inl TypeError"
    if "search_foreignKeys table = JNull" "schema_and_table_name table = Inr st" for st
    using that by (simp add: create_table_from_resource_def split: prod.splits)
  have pk_fail: "\<exists>e. create_table_from_resource TYPES py_str metadata_file table = Inl e"
    if pk: "search_primaryKey table = None" and fl: "search_fields table = Some (field # flds)"
  proof -
    have "\<exists>e. create_columns TYPES py_str metadata_file (search_primaryKey table) d
        (field # flds) = Inl e" for d
      using create_column_primary_keys_None [of TYPES py_str metadata_file d field]
      unfolding pk by auto
    with fl show ?thesis by (rule create_table_from_resource_columns_Inl)
  qed
  have pk_type: "create_table_from_resource TYPES py_str metadata_file table = Inl TypeError"
    if pk: "search_primaryKey table = None" and fl: "search_fields table = Some (field # flds)"
      and st: "schema_and_table_name table = Inr st"
      and fks: "py_iter (search_foreignKeys table) = Inr fks"
      and d: "foreign_keys_dict fks Map.empty = Inr d"
      and ty: "get_column_type TYPES metadata_file field = Inr ty"
      and name: "py_getitem field ''name'' = Inr name" and k: "key_of name = Some k"
      and target: "\<forall>reference. d k = Some reference \<longrightarrow>
                  (\<exists>target. foreign_key_target py_str reference = Inr target)"
    for st fks d ty name k
  proof -
    have "create_column TYPES py_str metadata_file None d field = Inl TypeError"
      using ty name k target
      by (auto simp: create_column_def py_in_def split: option.splits)
    then have "create_columns TYPES py_str metadata_file None d (field # flds) = Inl TypeError"
      by simp
    with pk fl st fks d show ?thesis
      by (simp add: create_table_from_resource_def split: prod.splits)
  qed
  have doc: "\<exists>e. create_tables_from_metadata_file TYPES py_str metadata_file metadata = Inl e"
    if "py_iter (jp_field ''resources'' metadata) = Inr tables_raw" "table \<in> set tables_raw"
      "search_foreignKeys table = JNull
       \<or> search_primaryKey table = None \<and> search_fields table = Some (field # flds)"
  proof -
    from that(3) fk_fail pk_fail
    obtain e where "create_table_from_resource TYPES py_str metadata_file table = Inl e"
      by blast
    from create_tables_from_metadata_file_member_Inl [OF that(1,2) this] show ?thesis .
  qed
  from fk_fail fk_type pk_fail pk_type doc show ?thesis by blast
qed

theorem missing_keys_raise_example:
  "create_table_from_resource example_TYPES example_py_str ''plant.json''
     resource_without_foreignKeys = Inl TypeError
   \<and> create_table_from_resource example_TYPES example_py_str ''plant.json''
     resource_without_primaryKey = Inl TypeError
   \<and> (\<exists>e. create_tables_from_metadata_file example_TYPES example_py_str ''plant.json''
            (document_json [plant_resource, resource_without_primaryKey]) = Inl e)"
proof -
  have fk: "search_foreignKeys resource_without_foreignKeys = JNull"
    by (simp add: resource_without_foreignKeys_def search_foreignKeys_def jp_field_def
        resource_json_def)
  have fk_name: "schema_and_table_name resource_without_foreignKeys = Inr (''public'', ''plant'')"
    by (simp add: resource_without_foreignKeys_def schema_and_table_name_def py_split_dot_def
        resource_json_def)
  have pk: "search_primaryKey resource_without_primaryKey = None
      \<and> search_fields resource_without_primaryKey
          = Some (field_json ''id'' ''integer'' (JString ''Identifier'') # [])"
    by (simp add: resource_without_primaryKey_def search_primaryKey_def search_fields_def
        jp_field_def jp_project_def resource_json_def field_json_def)
  have pk_rest: "schema_and_table_name resource_without_primaryKey = Inr (''public'', ''plant'')
      \<and> py_iter (search_foreignKeys resource_without_primaryKey) = Inr []
      \<and> foreign_keys_dict [] Map.empty = Inr Map.empty
      \<and> get_column_type example_TYPES ''plant.json''
            (field_json ''id'' ''integer'' (JString ''Identifier'')) = Inr (SAType ''Integer'')
      \<and> py_getitem (field_json ''id'' ''integer'' (JString ''Identifier'')) ''name''
            = Inr (JString ''id'')
      \<and> key_of (JString ''id'') = Some (KStr ''id'')
      \<and> (\<forall>reference. Map.empty (KStr ''id'') = Some reference \<longrightarrow>
            (\<exists>target. foreign_key_target example_py_str reference = Inr target))"
    by (simp add: resource_without_primaryKey_def builder_defs compiler_defs)
  have doc: "py_iter (jp_field ''resources''
        (document_json [plant_resource, resource_without_primaryKey]))
        = Inr [plant_resource, resource_without_primaryKey]
      \<and> resource_without_primaryKey \<in> set [plant_resource, resource_without_primaryKey]
      \<and> (search_foreignKeys resource_without_primaryKey = JNull
           \<or> search_primaryKey resource_without_primaryKey = None
             \<and> search_fields resource_without_primaryKey
                 = Some (field_json ''id'' ''integer'' (JString ''Identifier'') # []))"
    using pk by (simp add: document_json_def jp_field_def)
  note a = missing_keys_raise
    [where TYPES = example_TYPES and py_str = example_py_str and metadata_file = "''plant.json''"
       and table = resource_without_foreignKeys]
  note b = missing_keys_raise
    [where TYPES = example_TYPES and py_str = example_py_str and metadata_file = "''plant.json''"
       and table = resource_without_primaryKey
       and field = "field_json ''id'' ''integer'' (JString ''Identifier'')" and flds = "[]"
       and metadata = "document_json [plant_resource, resource_without_primaryKey]"
       and tables_raw = "[plant_resource, resource_without_primaryKey]"]
  from a [THEN conjunct1, rule_format, OF fk, THEN conjunct2, rule_format, OF fk_name]
  have one: "create_table_from_resource example_TYPES example_py_str ''plant.json''
     resource_without_foreignKeys = Inl TypeError" .
  from b [THEN conjunct2, THEN conjunct1, rule_format, OF pk, THEN conjunct2, rule_format,
      OF pk_rest]
  have two: "create_table_from_resource example_TYPES example_py_str ''plant.json''
     resource_without_primaryKey = Inl TypeError" .
  from b [THEN conjunct2, THEN conjunct2, rule_format, OF doc]
  have three: "\<exists>e. create_tables_from_metadata_file example_TYPES example_py_str ''plant.json''
            (document_json [plant_resource, resource_without_primaryKey]) = Inl e" .
  from one two three show ?thesis by (intro conjI)
qed

text \<open>
  C10 as stated fails: this resource has a field and no \<^verbatim>\<open>primaryKey\<close>, and compiling
  it ends with the \<open>MetadataError\<close> for the unknown type of the field, raised before the
  primary keys are looked at.
\<close>

theorem missing_primaryKey_behind_unknown_type:
  "search_primaryKey unknown_type_resource_without_primaryKey = None
   \<and> search_fields unknown_type_resource_without_primaryKey = Some [unknown_type_field]
   \<and> create_tables_from_metadata_file example_TYPES example_py_str ''plant.json''
        (document_json [unknown_type_resource_without_primaryKey])
      = Inl (MetadataError [JString ''Unknown column type'', unknown_type_field,
                            JString ''serial'', JString ''plant.json''])"
  by (simp add: unknown_type_resource_without_primaryKey_def unknown_type_field_def builder_defs
      compiler_defs)

end
